theory Spec2Isabelle
  imports Main "HOL-Library.Word" "HOL-Library.AList"
begin

section \<open>JavaScript strings\<close>

text \<open>
  A JavaScript string is a sequence of UTF-16 code units. The functions of the glossary
  service work on code units: the regular expressions of \<open>normalizeId\<close> carry no
  \<open>u\<close> flag, so a character class matches one code unit at a time.
\<close>

type_synonym code_unit = "16 word"
type_synonym jsstring = "code_unit list"

definition ascii :: "string \<Rightarrow> jsstring" where
  "ascii s = map of_char s"

definition hyphen :: code_unit where
  "hyphen = 0x2D"

text \<open>The character class \<open>[a-z0-9]\<close>.\<close>

definition is_slug_alnum :: "code_unit \<Rightarrow> bool" where
  "is_slug_alnum c = ((0x61 \<le> c \<and> c \<le> 0x7A) \<or> (0x30 \<le> c \<and> c \<le> 0x39))"

definition is_ascii :: "code_unit \<Rightarrow> bool" where
  "is_ascii c = (c < 0x80)"

definition ascii_lower :: "code_unit \<Rightarrow> code_unit" where
  "ascii_lower c = (if 0x41 \<le> c \<and> c \<le> 0x5A then c + 0x20 else c)"

text \<open>
  \<open>String.prototype.toLowerCase\<close>. On a string of ASCII code units it maps \<open>A-Z\<close> to
  \<open>a-z\<close> and leaves everything else alone. On any other string the result is given by the
  Unicode case mapping of the runtime, which may change the length of the string and may
  produce ASCII letters from non-ASCII ones; it is the parameter \<open>uni\<close>.
\<close>

definition toLowerCase :: "(jsstring \<Rightarrow> jsstring) \<Rightarrow> jsstring \<Rightarrow> jsstring" where
  "toLowerCase uni s = (if list_all is_ascii s then map ascii_lower s else uni s)"

text \<open>
  \<open>String.prototype.trim\<close> strips the code units of ECMAScript's WhiteSpace and
  LineTerminator productions from both ends.
\<close>

definition is_whitespace :: "code_unit \<Rightarrow> bool" where
  "is_whitespace c =
     (c \<in> set [0x09, 0x0A, 0x0B, 0x0C, 0x0D, 0x20, 0xA0, 0x1680,
                0x2028, 0x2029, 0x202F, 0x205F, 0x3000, 0xFEFF]
      \<or> (0x2000 \<le> c \<and> c \<le> 0x200A))"

definition trim :: "jsstring \<Rightarrow> jsstring" where
  "trim s = rev (dropWhile is_whitespace (rev (dropWhile is_whitespace s)))"

section \<open>The identifier normalizer\<close>

text \<open>\<open>.replace(/[^a-z0-9]/g, '-')\<close>: every code unit outside the class becomes a hyphen.\<close>

definition replace_non_alnum :: "jsstring \<Rightarrow> jsstring" where
  "replace_non_alnum s = map (\<lambda>c. if is_slug_alnum c then c else hyphen) s"

text \<open>\<open>.replace(/-+/g, '-')\<close>: every maximal run of hyphens becomes one hyphen.\<close>

fun collapse_hyphens :: "jsstring \<Rightarrow> jsstring" where
  "collapse_hyphens [] = []"
| "collapse_hyphens [c] = [c]"
| "collapse_hyphens (c # d # s) =
     (if c = hyphen \<and> d = hyphen then collapse_hyphens (d # s)
      else c # collapse_hyphens (d # s))"

definition normalizeId :: "(jsstring \<Rightarrow> jsstring) \<Rightarrow> jsstring \<Rightarrow> jsstring" where
  "normalizeId uni text =
     collapse_hyphens (replace_non_alnum (trim (toLowerCase uni text)))"

subsection \<open>The shape of a slug\<close>

text \<open>
  The regular expression \<open>^[a-z0-9]+(-[a-z0-9]+)*$\<close> as an automaton; the flag says
  whether the code unit just read was in \<open>[a-z0-9]\<close>.
\<close>

fun slug_re_from :: "bool \<Rightarrow> jsstring \<Rightarrow> bool" where
  "slug_re_from prev [] = prev"
| "slug_re_from prev (c # s) =
     (if is_slug_alnum c then slug_re_from True s
      else (c = hyphen \<and> prev \<and> slug_re_from False s))"

definition matches_slug :: "jsstring \<Rightarrow> bool" where
  "matches_slug s = slug_re_from False s"

definition is_slug_char :: "code_unit \<Rightarrow> bool" where
  "is_slug_char c = (is_slug_alnum c \<or> c = hyphen)"

fun no_double_hyphen :: "jsstring \<Rightarrow> bool" where
  "no_double_hyphen [] = True"
| "no_double_hyphen [c] = True"
| "no_double_hyphen (c # d # s) =
     ((c \<noteq> hyphen \<or> d \<noteq> hyphen) \<and> no_double_hyphen (d # s))"

section \<open>JavaScript values\<close>

text \<open>
  The values that flow through the resolver are untyped at run time: the TypeScript type
  \<open>TermData\<close> is only asserted (\<open>as TermData\<close>) on what the store and \<open>JSON.parse\<close>
  deliver. An object is a list of own properties together with its kind: a plain object,
  an array with its elements, or a built-in object of the runtime, named by the property
  of \<open>Object.prototype\<close> that holds it. A number is the bit
  pattern of its IEEE 754 double.
\<close>

datatype 'a objkind = PlainObject | ArrayObject "'a list" | BuiltinObject string

datatype jsval =
    JUndefined
  | JNull
  | JBool bool
  | JNum "64 word"
  | JStr jsstring
  | JObj "jsval objkind" "(jsstring \<times> jsval) list"

text \<open>\<open>ToBoolean\<close>: a number is falsy when it is \<open>+0\<close>, \<open>-0\<close> or \<open>NaN\<close>.\<close>

fun truthy :: "jsval \<Rightarrow> bool" where
  "truthy JUndefined = False"
| "truthy JNull = False"
| "truthy (JBool b) = b"
| "truthy (JNum d) =
     (let m = and d 0x7FFFFFFFFFFFFFFF in m \<noteq> 0 \<and> m \<le> 0x7FF0000000000000)"
| "truthy (JStr s) = (s \<noteq> [])"
| "truthy (JObj k props) = True"

text \<open>
  Reading a property. The resolver reads only names that no prototype defines
  (\<open>content\<close>, \<open>examples\<close>, \<open>term\<close>, ...), so the own properties decide; on a primitive
  the result is \<open>undefined\<close>. The resolver never reads a property of \<open>null\<close> or
  \<open>undefined\<close>.
\<close>

fun getProp :: "jsval \<Rightarrow> jsstring \<Rightarrow> jsval" where
  "getProp (JObj k props) key = (case map_of props key of Some v \<Rightarrow> v | None \<Rightarrow> JUndefined)"
| "getProp v key = JUndefined"

text \<open>
  Assigning a property. The module is an ECMAScript module and so strict code: an
  assignment to a property of \<open>null\<close>, \<open>undefined\<close> or a primitive raises a TypeError,
  which is the result \<open>None\<close>.
\<close>

fun setProp :: "jsval \<Rightarrow> jsstring \<Rightarrow> jsval \<Rightarrow> jsval option" where
  "setProp (JObj k props) key v = Some (JObj k (AList.update key v props))"
| "setProp d key v = None"

fun isArray :: "jsval \<Rightarrow> bool" where
  "isArray (JObj (ArrayObject xs) props) = True"
| "isArray v = False"

definition emptyArray :: jsval where
  "emptyArray = JObj (ArrayObject []) []"

section \<open>The runtime and the two external services\<close>

text \<open>
  Everything the resolver and the seeder do to the outside world is an event, appended to
  the history in the order in which it happens: a query of the store, a call of the
  backend, an insert into the store, a console line (its first argument), a call of the
  progress callback, a pause in milliseconds. The progress callback is taken to return
  normally.
\<close>

datatype event =
    Select jsstring
  | Generate jsstring
  | Insert jsval
  | ConsoleLog jsstring
  | ConsoleWarn jsstring
  | ConsoleError jsstring
  | Progress jsstring
  | Sleep nat

text \<open>
  \<open>await supabase.from('terms').select('*').eq('id', dbId).single()\<close> either rejects
  or resolves to a pair whose \<open>data\<close> field is kept.
\<close>

datatype select_outcome = SelectRejects | SelectResolves jsval

text \<open>
  \<open>await ai.models.generateContent(...)\<close> either rejects or resolves to a response
  whose \<open>text\<close> is a string or \<open>undefined\<close>.
\<close>

datatype generate_outcome = GenerateRejects | GenerateResolves "jsstring option"

text \<open>
  The host: the two environment variables read by \<open>services/supabase.ts\<close>, the Unicode
  part of \<open>toLowerCase\<close>, \<open>JSON.parse\<close> (\<open>None\<close> when it raises a SyntaxError), and
  the replies of the store and of the generative backend. A reply may depend on the
  history before the call and on the argument of the call: the identifier for the store,
  the term spliced into the fixed prompt for the backend.
\<close>

record host =
  SUPABASE_URL :: "jsstring option"
  SUPABASE_ANON_KEY :: "jsstring option"
  unicodeLowerCase :: "jsstring \<Rightarrow> jsstring"
  JSON_parse :: "jsstring \<Rightarrow> jsval option"
  select_single :: "event list \<Rightarrow> jsstring \<Rightarrow> select_outcome"
  generateContent :: "event list \<Rightarrow> jsstring \<Rightarrow> generate_outcome"

text \<open>\<open>!!supabaseUrl && !!supabaseKey\<close>: both variables are set and not empty.\<close>

definition isSupabaseConfigured :: "host \<Rightarrow> bool" where
  "isSupabaseConfigured h =
     ((case SUPABASE_URL h of None \<Rightarrow> False | Some s \<Rightarrow> s \<noteq> [])
      \<and> (case SUPABASE_ANON_KEY h of None \<Rightarrow> False | Some s \<Rightarrow> s \<noteq> []))"

section \<open>The local seed set\<close>

definition api_record :: jsval where
  "api_record = JObj PlainObject
    [(ascii ''id'', JStr (ascii ''api'')),
     (ascii ''term'', JStr (ascii ''API'')),
     (ascii ''fullTerm'', JStr (ascii ''Application Programming Interface'')),
     (ascii ''category'', JStr (ascii ''Desenvolvimento'')),
     (ascii ''definition'',
        JStr (ascii ''APIs permitem que diferentes sistemas de software conversem entre si automaticamente, eliminando tarefas manuais e conectando sua empresa ao mercado digital.'')),
     (ascii ''phonetic'', JStr (ascii ''Ei-pi-ai'')),
     (ascii ''slang'', JUndefined),
     (ascii ''translation'',
        JStr (ascii ''INTERFACE DE PROGRAMA'' @ [0xC7, 0xC3] @ ascii ''O DE APLICATIVOS'')),
     (ascii ''examples'', JObj (ArrayObject
       [JObj PlainObject
         [(ascii ''title'', JStr (ascii ''AUTOMA'' @ [0xC7, 0xC3] @ ascii ''O DE FLUXOS'')),
          (ascii ''description'', JStr (ascii ''Elimina a interven'' @ [0xE7, 0xE3] @ ascii ''o humana ao conectar processos operacionais cr'' @ [0xED] @ ascii ''ticos.''))],
        JObj PlainObject
         [(ascii ''title'', JStr (ascii ''SINCRONIZA'' @ [0xC7, 0xC3] @ ascii ''O DE DADOS'')),
          (ascii ''description'', JStr (ascii ''Mant'' @ [0xE9] @ ascii ''m Vendas, RH e Financeiro atualizados em todas as plataformas.''))]]) []),
     (ascii ''analogies'', JObj (ArrayObject
       [JObj PlainObject
         [(ascii ''title'', JStr (ascii ''O GAR'' @ [0xC7] @ ascii ''OM NO RESTAURANTE'')),
          (ascii ''description'', JStr (ascii ''Voc'' @ [0xEA] @ ascii '' (cliente) pede ao gar'' @ [0xE7] @ ascii ''om (API), que leva o pedido '' @ [0xE0] @ ascii '' cozinha (sistema) e traz o prato.''))],
        JObj PlainObject
         [(ascii ''title'', JStr (ascii ''TOMADA UNIVERSAL'')),
          (ascii ''description'', JStr (ascii ''Interface padr'' @ [0xE3] @ ascii ''o para conectar qualquer aparelho '' @ [0xE0] @ ascii '' energia sem saber como a rede funciona.''))]]) []),
     (ascii ''practicalUsage'',
        JObj PlainObject
         [(ascii ''title'', JStr (ascii ''Na reuni'' @ [0xE3] @ ascii ''o de alinhamento (Daily)'')),
          (ascii ''content'', JStr (ascii ''Pessoal, a API de pagamentos caiu porque o gateway mudou a autentica'' @ [0xE7, 0xE3] @ ascii ''o. Vou precisar refatorar a integra'' @ [0xE7, 0xE3] @ ascii ''o hoje '' @ [0xE0] @ ascii '' tarde pra gente voltar a vender.''))]),
     (ascii ''relatedTerms'', JObj (ArrayObject
       [JStr (ascii ''Endpoint''), JStr (ascii ''JSON''), JStr (ascii ''REST''), JStr (ascii ''Webhook''), JStr (ascii ''Gateway''), JStr (ascii ''SDK'')]) [])]"

text \<open>
  \<open>localDatabase[key]\<close>. The seed set is an object literal with the single own property
  \<open>api\<close>; a lookup of any other name walks on to \<open>Object.prototype\<close> and finds a
  built-in object under each of the names below, \<open>undefined\<close> under every other name.
  Of these names only \<open>constructor\<close> and \<open>__proto__\<close> are free of upper-case letters.
\<close>

definition objectPrototypeNames :: "string list" where
  "objectPrototypeNames =
     [''constructor'', ''__proto__'', ''hasOwnProperty'', ''isPrototypeOf'',
      ''propertyIsEnumerable'', ''toLocaleString'', ''toString'', ''valueOf'',
      ''__defineGetter__'', ''__defineSetter__'', ''__lookupGetter__'',
      ''__lookupSetter__'']"

definition localDatabase :: "jsstring \<Rightarrow> jsval" where
  "localDatabase key =
     (if key = ascii ''api'' then api_record
      else case find (\<lambda>name. ascii name = key) objectPrototypeNames of
             Some name \<Rightarrow> JObj (BuiltinObject name) []
           | None \<Rightarrow> JUndefined)"

section \<open>The term resolver\<close>

datatype error = Error jsstring

text \<open>The one error the resolver raises, at its last line.\<close>

definition notFound :: error where
  "notFound = Error (ascii ''Termo n'' @ [0xE3] @ ascii ''o encontrado.'')"

text \<open>
  Tier A, the persistent store. Without configuration no query is made. A rejected query
  is logged and counts as a miss; so does a row without a truthy \<open>content\<close>.
\<close>

definition storeLookup :: "host \<Rightarrow> jsstring \<Rightarrow> event list \<Rightarrow> jsval option \<times> event list" where
  "storeLookup h dbId tr =
     (if isSupabaseConfigured h then
        (case select_single h tr dbId of
           SelectResolves data \<Rightarrow>
             if truthy data \<and> truthy (getProp data (ascii ''content''))
             then (Some (getProp data (ascii ''content'')),
                   tr @ [Select dbId, ConsoleLog (ascii ''Hit from Supabase:'')])
             else (None, tr @ [Select dbId])
         | SelectRejects \<Rightarrow>
             (None, tr @ [Select dbId,
                ConsoleWarn (ascii ''Supabase fetch failed, falling back to AI/Local'')]))
      else (None, tr))"

definition placeholderUsage :: jsval where
  "placeholderUsage = JObj PlainObject
     [(ascii ''title'', JStr (ascii ''Contexto Geral'')),
      (ascii ''content'',
         JStr (ascii ''Termo usado frequentemente em reuni'' @ [0xF5] @ ascii ''es de tecnologia.''))]"

text \<open>
  The post-processing of the parsed payload: the forced identifier and the defaults. The
  first assignment fails unless the payload is an object.
\<close>

definition arrayOrEmpty :: "jsval \<Rightarrow> jsval" where
  "arrayOrEmpty v = (if isArray v then v else emptyArray)"

definition applyDefaults :: "jsstring \<Rightarrow> jsval \<Rightarrow> jsval option" where
  "applyDefaults dbId parsed =
     Option.bind (setProp parsed (ascii ''id'') (JStr dbId)) (\<lambda>d1.
     Option.bind (setProp d1 (ascii ''examples'')
                    (arrayOrEmpty (getProp d1 (ascii ''examples'')))) (\<lambda>d2.
     Option.bind (setProp d2 (ascii ''analogies'')
                    (arrayOrEmpty (getProp d2 (ascii ''analogies'')))) (\<lambda>d3.
     Option.bind (setProp d3 (ascii ''relatedTerms'')
                    (arrayOrEmpty (getProp d3 (ascii ''relatedTerms'')))) (\<lambda>d4.
     Option.bind (setProp d4 (ascii ''fullTerm'')
                    (if truthy (getProp d4 (ascii ''fullTerm''))
                     then getProp d4 (ascii ''fullTerm'')
                     else getProp d4 (ascii ''term''))) (\<lambda>d5.
     if truthy (getProp d5 (ascii ''practicalUsage'')) then Some d5
     else setProp d5 (ascii ''practicalUsage'') placeholderUsage)))))"

text \<open>The row handed to \<open>supabase.from('terms').insert\<close>.\<close>

definition termsRow :: "jsstring \<Rightarrow> jsval \<Rightarrow> jsval" where
  "termsRow dbId data = JObj PlainObject
     [(ascii ''id'', JStr dbId),
      (ascii ''term'', getProp data (ascii ''term'')),
      (ascii ''category'', getProp data (ascii ''category'')),
      (ascii ''definition'', getProp data (ascii ''definition'')),
      (ascii ''content'', data)]"

text \<open>
  Tiers C and D, generation and write-back. Whatever is raised inside the \<open>try\<close> block
  (a rejected call, a SyntaxError of \<open>JSON.parse\<close>, a TypeError of the first assignment)
  is caught and logged, and control falls through to the final \<open>throw\<close>; so does a
  response without text. The insert is started and not awaited; what it reports later is
  only logged.
\<close>

definition generateTerm ::
    "host \<Rightarrow> jsstring \<Rightarrow> jsstring \<Rightarrow> event list \<Rightarrow> (error + jsval) \<times> event list" where
  "generateTerm h termId dbId tr =
     (let tr1 = tr @ [Generate termId];
          caught = (Inl notFound, tr1 @ [ConsoleError (ascii ''AI Generation failed:'')])
      in case generateContent h tr termId of
           GenerateRejects \<Rightarrow> caught
         | GenerateResolves None \<Rightarrow> (Inl notFound, tr1)
         | GenerateResolves (Some text) \<Rightarrow>
             if text = [] then (Inl notFound, tr1)
             else (case JSON_parse h text of
                     None \<Rightarrow> caught
                   | Some parsed \<Rightarrow>
                       (case applyDefaults dbId parsed of
                          None \<Rightarrow> caught
                        | Some data \<Rightarrow>
                            (Inr data,
                             if isSupabaseConfigured h
                             then tr1 @ [Insert (termsRow dbId data)] else tr1))))"

definition getTermData ::
    "host \<Rightarrow> jsstring \<Rightarrow> event list \<Rightarrow> (error + jsval) \<times> event list" where
  "getTermData h termId tr =
     (let rawId = trim (toLowerCase (unicodeLowerCase h) termId);
          dbId = normalizeId (unicodeLowerCase h) termId
      in case storeLookup h dbId tr of
           (Some content, tr1) \<Rightarrow> (Inr content, tr1)
         | (None, tr1) \<Rightarrow>
             if truthy (localDatabase rawId) then (Inr (localDatabase rawId), tr1)
             else generateTerm h termId dbId tr1)"

section \<open>The batch seeder\<close>

text \<open>The decimal digits of a length, as a template literal prints it.\<close>

fun decimal :: "nat \<Rightarrow> jsstring" where
  "decimal n =
     (if n < 10 then [0x30 + of_nat n]
      else decimal (n div 10) @ [0x30 + of_nat (n mod 10)])"

declare decimal.simps [simp del]

definition defaultList :: "jsstring list" where
  "defaultList =
     [ascii ''Kubernetes'', ascii ''Docker'', ascii ''CI/CD'', ascii ''Microservices'',
      ascii ''Serverless'', ascii ''React'', ascii ''Node.js'', ascii ''Python'',
      ascii ''Machine Learning'', ascii ''LLM'', ascii ''Cybersecurity'',
      ascii ''Zero Trust'', ascii ''Firewall'', ascii ''VPN'', ascii ''Encryption'',
      ascii ''Agile'', ascii ''Scrum'', ascii ''Kanban'', ascii ''MVP'',
      ascii ''Product Market Fit'']"

definition notConfiguredMessage :: jsstring where
  "notConfiguredMessage =
     ascii ''ERRO: Supabase n'' @ [0xE3] @ ascii ''o configurado. Verifique suas chaves API.''"

definition startMessage :: "nat \<Rightarrow> jsstring" where
  "startMessage n = ascii ''Iniciando carga de '' @ decimal n @ ascii '' termos...''"

definition tokenWarningMessage :: jsstring where
  "tokenWarningMessage =
     ascii ''Aten'' @ [0xE7, 0xE3] @ ascii ''o: Isso consome tokens da sua API Key.''"

definition processingMessage :: "jsstring \<Rightarrow> jsstring" where
  "processingMessage term = ascii ''Processando: '' @ term @ ascii ''...''"

definition savedMessage :: "jsstring \<Rightarrow> jsstring" where
  "savedMessage term = [0x2705] @ ascii '' '' @ term @ ascii '' salvo/verificado com sucesso.''"

definition failedMessage :: "jsstring \<Rightarrow> jsstring" where
  "failedMessage term =
     [0x274C] @ ascii '' Erro ao processar '' @ term @ ascii '': Tente novamente.''"

definition finishedMessage :: jsstring where
  "finishedMessage =
     ascii ''Carga finalizada! Seu banco de dados agora est'' @ [0xE1]
       @ ascii '' mais inteligente.''"

text \<open>
  The \<open>for\<close> loop over the list: a blank term is skipped; every other term is announced,
  resolved inside a \<open>try\<close> whose \<open>catch\<close> reports the failure, and followed by a pause
  of 1500 milliseconds.
\<close>

fun seedLoop :: "host \<Rightarrow> jsstring list \<Rightarrow> event list \<Rightarrow> event list" where
  "seedLoop h [] tr = tr"
| "seedLoop h (term # rest) tr =
     (if trim term = [] then seedLoop h rest tr
      else
        (case getTermData h term (tr @ [Progress (processingMessage term)]) of
           (Inr data, tr1) \<Rightarrow>
             seedLoop h rest (tr1 @ [Progress (savedMessage term), Sleep 1500])
         | (Inl e, tr1) \<Rightarrow>
             seedLoop h rest (tr1 @ [Progress (failedMessage term), Sleep 1500])))"

text \<open>The optional argument \<open>customList\<close> is \<open>None\<close> when it is left out.\<close>

definition listToProcess :: "jsstring list option \<Rightarrow> jsstring list" where
  "listToProcess customList =
     (case customList of
        None \<Rightarrow> defaultList
      | Some l \<Rightarrow> if length l > 0 then l else defaultList)"

definition seedDatabase :: "host \<Rightarrow> jsstring list option \<Rightarrow> event list \<Rightarrow> event list" where
  "seedDatabase h customList tr =
     (if \<not> isSupabaseConfigured h then tr @ [Progress notConfiguredMessage]
      else
        seedLoop h (listToProcess customList)
          (tr @ [Progress (startMessage (length (listToProcess customList))),
                 Progress tokenWarningMessage])
        @ [Progress finishedMessage])"

section \<open>Observing a history\<close>

text \<open>The strings handed to the progress callback, in order.\<close>

fun progressOf :: "event list \<Rightarrow> jsstring list" where
  "progressOf [] = []"
| "progressOf (Progress m # tr) = m # progressOf tr"
| "progressOf (e # tr) = progressOf tr"

text \<open>The identifiers queried in the store, in order.\<close>

fun selectsOf :: "event list \<Rightarrow> jsstring list" where
  "selectsOf [] = []"
| "selectsOf (Select key # tr) = key # selectsOf tr"
| "selectsOf (e # tr) = selectsOf tr"

text \<open>What the seeder reports for one term: the announcement, then the outcome.\<close>

definition itemReport :: "jsstring \<Rightarrow> bool \<Rightarrow> jsstring list" where
  "itemReport term ok =
     [processingMessage term, if ok then savedMessage term else failedMessage term]"

definition walkReport :: "jsstring list \<Rightarrow> bool list \<Rightarrow> jsstring list" where
  "walkReport terms outcomes = concat (map2 itemReport terms outcomes)"

definition nonBlank :: "jsstring list \<Rightarrow> jsstring list" where
  "nonBlank terms = filter (\<lambda>t. trim t \<noteq> []) terms"

section \<open>Sample hosts\<close>

text \<open>
  \<open>JSON.parse\<close> on the three texts that the sample backends below return; the sample
  hosts never parse anything else.
\<close>

definition emptyObjectText :: jsstring where
  "emptyObjectText = ascii ''{}''"

definition dockerText :: jsstring where
  \<open>dockerText = ascii ''{"id":"wrong","term":"Docker"}''\<close>

definition apologyText :: jsstring where
  "apologyText = ascii ''I cannot help with that.''"

definition sampleParse :: "jsstring \<Rightarrow> jsval option" where
  "sampleParse text =
     (if text = emptyObjectText then Some (JObj PlainObject [])
      else if text = dockerText then
        Some (JObj PlainObject
                [(ascii ''id'', JStr (ascii ''wrong'')),
                 (ascii ''term'', JStr (ascii ''Docker''))])
      else None)"

text \<open>No store, and a backend that cannot be reached.\<close>

definition offlineHost :: host where
  "offlineHost =
     \<lparr>SUPABASE_URL = None, SUPABASE_ANON_KEY = None,
      unicodeLowerCase = (\<lambda>s. s), JSON_parse = sampleParse,
      select_single = (\<lambda>tr key. SelectResolves JNull),
      generateContent = (\<lambda>tr term. GenerateRejects)\<rparr>"

text \<open>A backend that answers without text.\<close>

definition silentHost :: host where
  "silentHost = offlineHost\<lparr>generateContent := (\<lambda>tr term. GenerateResolves None)\<rparr>"

text \<open>A backend that answers with prose instead of JSON.\<close>

definition garbledHost :: host where
  "garbledHost =
     offlineHost\<lparr>generateContent := (\<lambda>tr term. GenerateResolves (Some apologyText))\<rparr>"

text \<open>A backend that answers with a sparse payload carrying an identifier of its own.\<close>

definition generatingHost :: host where
  "generatingHost =
     offlineHost\<lparr>generateContent := (\<lambda>tr term. GenerateResolves (Some dockerText))\<rparr>"

text \<open>A configured store that holds a record of its own under the identifier \<open>api\<close>.\<close>

definition storedApi :: jsval where
  "storedApi = JObj PlainObject
     [(ascii ''id'', JStr (ascii ''api'')),
      (ascii ''term'', JStr (ascii ''API'')),
      (ascii ''definition'', JStr (ascii ''Stored definition.''))]"

definition cachedHost :: host where
  "cachedHost =
     generatingHost
       \<lparr>SUPABASE_URL := Some (ascii ''https://example.supabase.co''),
        SUPABASE_ANON_KEY := Some (ascii ''anon-key''),
        select_single := (\<lambda>tr key.
          if key = ascii ''api''
          then SelectResolves (JObj PlainObject
                 [(ascii ''id'', JStr (ascii ''api'')), (ascii ''content'', storedApi)])
          else SelectResolves JNull)\<rparr>"

text \<open>
  A configured, empty store and a backend that answers every term with an empty object,
  except \<open>Docker\<close>, for which the call is rejected.
\<close>

definition seedingHost :: host where
  "seedingHost =
     offlineHost
       \<lparr>SUPABASE_URL := Some (ascii ''https://example.supabase.co''),
        SUPABASE_ANON_KEY := Some (ascii ''anon-key''),
        generateContent := (\<lambda>tr term.
          if term = ascii ''Docker'' then GenerateRejects
          else GenerateResolves (Some emptyObjectText))\<rparr>"

section \<open>Evaluation rules\<close>

lemma ascii_Nil: "ascii [] = []"
  by (simp add: ascii_def)

lemma ascii_Cons: "ascii (c # s) = of_char c # ascii s"
  by (simp add: ascii_def)

lemmas ascii_simps = ascii_Nil ascii_Cons

lemmas string_eval =
  ascii_simps toLowerCase_def trim_def replace_non_alnum_def normalizeId_def
  is_ascii_def ascii_lower_def is_whitespace_def is_slug_alnum_def hyphen_def

lemmas host_eval =
  offlineHost_def silentHost_def garbledHost_def generatingHost_def cachedHost_def
  seedingHost_def sampleParse_def emptyObjectText_def dockerText_def apologyText_def
  isSupabaseConfigured_def

lemmas resolver_eval =
  getTermData_def storeLookup_def generateTerm_def localDatabase_def
  objectPrototypeNames_def notFound_def applyDefaults_def Let_def

section \<open>Properties of the identifier normalizer\<close>

lemma slug_char_ascii: "is_slug_char c \<Longrightarrow> is_ascii c"
  by (auto simp: is_slug_char_def is_slug_alnum_def is_ascii_def hyphen_def
        word_le_nat_alt word_less_nat_alt)

lemma slug_char_lower: "is_slug_char c \<Longrightarrow> ascii_lower c = c"
  by (auto simp: is_slug_char_def is_slug_alnum_def ascii_lower_def hyphen_def
        word_le_nat_alt)

lemma slug_char_not_whitespace: "is_slug_char c \<Longrightarrow> \<not> is_whitespace c"
  by (auto simp: is_slug_char_def is_slug_alnum_def is_whitespace_def hyphen_def
        word_le_nat_alt)

lemma toLowerCase_slug: "list_all is_slug_char s \<Longrightarrow> toLowerCase uni s = s"
  by (auto simp: toLowerCase_def list_all_iff slug_char_ascii slug_char_lower intro: map_idI)

lemma dropWhile_none: "list_all (\<lambda>c. \<not> P c) s \<Longrightarrow> dropWhile P s = s"
  by (cases s) auto

lemma trim_slug:
  assumes "list_all is_slug_char s"
  shows "trim s = s"
proof -
  from assms have n: "list_all (\<lambda>c. \<not> is_whitespace c) s"
    by (auto simp: list_all_iff slug_char_not_whitespace)
  then have "list_all (\<lambda>c. \<not> is_whitespace c) (rev s)"
    by (simp add: list_all_iff)
  with n show ?thesis
    by (simp add: trim_def dropWhile_none)
qed

lemma replace_slug: "list_all is_slug_char s \<Longrightarrow> replace_non_alnum s = s"
  by (induction s) (auto simp: replace_non_alnum_def is_slug_char_def)

lemma replace_is_slug: "list_all is_slug_char (replace_non_alnum s)"
  by (induction s) (auto simp: replace_non_alnum_def is_slug_char_def)

lemma collapse_subset: "set (collapse_hyphens s) \<subseteq> set s"
  by (induction s rule: collapse_hyphens.induct) auto

lemma collapse_is_slug:
  "list_all is_slug_char s \<Longrightarrow> list_all is_slug_char (collapse_hyphens s)"
  using collapse_subset [of s] by (auto simp: list_all_iff)

lemma collapse_Cons: "\<exists>t. collapse_hyphens (c # s) = c # t"
  by (induction "c # s" arbitrary: c s rule: collapse_hyphens.induct) auto

lemma collapse_no_double: "no_double_hyphen (collapse_hyphens s)"
proof (induction s rule: collapse_hyphens.induct)
  case (3 c d s)
  obtain t where "collapse_hyphens (d # s) = d # t"
    using collapse_Cons by blast
  with 3 show ?case by auto
qed simp_all

lemma collapse_fix: "no_double_hyphen s \<Longrightarrow> collapse_hyphens s = s"
  by (induction s rule: collapse_hyphens.induct) auto

lemma normalizeId_chars: "list_all is_slug_char (normalizeId uni s)"
  by (simp add: normalizeId_def collapse_is_slug replace_is_slug)

lemma normalizeId_no_double: "no_double_hyphen (normalizeId uni s)"
  by (simp add: normalizeId_def collapse_no_double)

text \<open>
  A string over \<open>[a-z0-9-]\<close> without a double hyphen is accepted by the automaton from
  a state \<open>prev\<close> as soon as it does not end in a hyphen and does not open with one that
  the state forbids.
\<close>

lemma slug_re_from_accepts:
  "list_all is_slug_char s \<Longrightarrow> no_double_hyphen s \<Longrightarrow> (s = [] \<longrightarrow> prev) \<Longrightarrow>
   (s \<noteq> [] \<longrightarrow> last s \<noteq> hyphen \<and> (prev \<or> hd s \<noteq> hyphen)) \<Longrightarrow> slug_re_from prev s"
proof (induction s arbitrary: prev)
  case Nil
  then show ?case by simp
next
  case (Cons c t)
  show ?case
  proof (cases "is_slug_alnum c")
    case True
    have "slug_re_from True t"
      using Cons.prems by (intro Cons.IH) (cases t; auto)+
    with True show ?thesis by simp
  next
    case False
    with Cons.prems have c: "c = hyphen"
      by (simp add: is_slug_char_def)
    with Cons.prems have p: prev by auto
    from c Cons.prems have tne: "t \<noteq> []" by auto
    have "slug_re_from False t"
      using Cons.prems c tne by (intro Cons.IH) (cases t; auto)+
    with False c p show ?thesis by simp
  qed
qed

text \<open>
  Claim C1, as amended. For every input string, the output of \<open>normalizeId\<close> consists of
  code units in \<open>[a-z0-9-]\<close> only and has no two adjacent hyphens; it is empty, or it
  matches \<open>^[a-z0-9]+(-[a-z0-9]+)*$\<close>, or it begins or ends with a hyphen. Nothing
  strips a hyphen at either end: \<open>trim\<close> runs before the replacement and removes white
  space only.
\<close>

theorem normalizeId_shape:
  "list_all is_slug_char (normalizeId uni s)
   \<and> no_double_hyphen (normalizeId uni s)
   \<and> (normalizeId uni s = [] \<or> hd (normalizeId uni s) = hyphen
        \<or> last (normalizeId uni s) = hyphen \<or> matches_slug (normalizeId uni s))"
proof -
  have "slug_re_from False (normalizeId uni s)"
    if "normalizeId uni s \<noteq> []" "hd (normalizeId uni s) \<noteq> hyphen"
       "last (normalizeId uni s) \<noteq> hyphen"
    using that normalizeId_chars [of uni s] normalizeId_no_double [of uni s]
    by (intro slug_re_from_accepts) simp_all
  then show ?thesis
    using normalizeId_chars [of uni s] normalizeId_no_double [of uni s]
    by (auto simp: matches_slug_def)
qed

theorem normalizeId_shape_witness:
  "normalizeId id (ascii ''React JS'') = ascii ''react-js''
   \<and> list_all is_slug_char (normalizeId id (ascii ''React JS''))
   \<and> no_double_hyphen (normalizeId id (ascii ''React JS''))
   \<and> matches_slug (normalizeId id (ascii ''React JS''))"
proof -
  have e: "normalizeId id (ascii ''React JS'') = ascii ''react-js''"
    by (simp add: string_eval)
  have "hd (ascii ''react-js'') \<noteq> hyphen" "last (ascii ''react-js'') \<noteq> hyphen"
    "ascii ''react-js'' \<noteq> []"
    by (simp_all add: ascii_simps hyphen_def)
  with normalizeId_shape [of id "ascii ''React JS''"] e show ?thesis
    by simp
qed

text \<open>
  The claim C1 as the specification states it fails: \<open>normalizeId("C++")\<close> is \<open>"c-"\<close>,
  which is not empty and ends with a hyphen.
\<close>

theorem normalizeId_slug_counterexample:
  "normalizeId id (ascii ''C++'') = ascii ''c-''
   \<and> \<not> (normalizeId id (ascii ''C++'') = [] \<or> matches_slug (normalizeId id (ascii ''C++'')))"
  by (simp add: string_eval matches_slug_def)

text \<open>
  Claim C9. The identifier normalizer is idempotent: normalizing a normalized identifier
  gives the same identifier, whatever the input string and whatever the Unicode case
  mapping of the runtime.
\<close>

theorem normalizeId_idempotent:
  "normalizeId uni (normalizeId uni x) = normalizeId uni x"
proof -
  let ?y = "normalizeId uni x"
  have c: "list_all is_slug_char ?y" by (rule normalizeId_chars)
  have "normalizeId uni ?y = collapse_hyphens ?y"
    by (simp add: normalizeId_def [of uni ?y] toLowerCase_slug [OF c] trim_slug [OF c]
          replace_slug [OF c])
  also have "\<dots> = ?y"
    by (rule collapse_fix) (rule normalizeId_no_double)
  finally show ?thesis .
qed

theorem normalizeId_idempotent_witness:
  "normalizeId id (ascii '' CI/CD '') = ascii ''ci-cd''
   \<and> normalizeId id (normalizeId id (ascii '' CI/CD '')) = ascii ''ci-cd''"
proof -
  have "normalizeId id (ascii '' CI/CD '') = ascii ''ci-cd''"
    by (simp add: string_eval)
  with normalizeId_idempotent [of id "ascii '' CI/CD ''"] show ?thesis
    by simp
qed

section \<open>Properties of the term resolver\<close>

lemma truthy_getProp: "truthy (getProp d key) \<Longrightarrow> truthy d"
  by (cases d) simp_all

lemma applyDefaults_obj: "\<exists>data. applyDefaults dbId (JObj k props) = Some data"
  by (simp add: applyDefaults_def)

lemma applyDefaults_id:
  "applyDefaults dbId parsed = Some data \<Longrightarrow> getProp data (ascii ''id'') = JStr dbId"
  by (cases parsed) (auto simp: applyDefaults_def update_conv' ascii_simps split: if_splits)

lemma applyDefaults_examples:
  "applyDefaults dbId parsed = Some data \<Longrightarrow>
   getProp data (ascii ''examples'') = arrayOrEmpty (getProp parsed (ascii ''examples''))"
  by (cases parsed) (auto simp: applyDefaults_def update_conv' ascii_simps split: if_splits)

lemma applyDefaults_analogies:
  "applyDefaults dbId parsed = Some data \<Longrightarrow>
   getProp data (ascii ''analogies'') = arrayOrEmpty (getProp parsed (ascii ''analogies''))"
  by (cases parsed) (auto simp: applyDefaults_def update_conv' ascii_simps split: if_splits)

lemma applyDefaults_relatedTerms:
  "applyDefaults dbId parsed = Some data \<Longrightarrow>
   getProp data (ascii ''relatedTerms'')
     = arrayOrEmpty (getProp parsed (ascii ''relatedTerms''))"
  by (cases parsed) (auto simp: applyDefaults_def update_conv' ascii_simps split: if_splits)

lemma applyDefaults_fullTerm:
  "applyDefaults dbId parsed = Some data \<Longrightarrow>
   getProp data (ascii ''fullTerm'') =
     (if truthy (getProp parsed (ascii ''fullTerm'')) then getProp parsed (ascii ''fullTerm'')
      else getProp parsed (ascii ''term''))"
  by (cases parsed) (auto simp: applyDefaults_def update_conv' ascii_simps split: if_splits)

lemma applyDefaults_practicalUsage:
  "applyDefaults dbId parsed = Some data \<Longrightarrow>
   getProp data (ascii ''practicalUsage'') =
     (if truthy (getProp parsed (ascii ''practicalUsage''))
      then getProp parsed (ascii ''practicalUsage'') else placeholderUsage)"
  by (cases parsed) (auto simp: applyDefaults_def update_conv' ascii_simps split: if_splits)

lemma progressOf_append: "progressOf (xs @ ys) = progressOf xs @ progressOf ys"
  by (induction xs rule: progressOf.induct) simp_all

lemma selectsOf_append: "selectsOf (xs @ ys) = selectsOf xs @ selectsOf ys"
  by (induction xs rule: selectsOf.induct) simp_all

text \<open>The store tier neither calls the backend nor the progress callback.\<close>

lemma storeLookup_events:
  assumes "storeLookup h dbId tr = (r, tr1)"
  shows "\<exists>ev. tr1 = tr @ ev \<and> Generate t \<notin> set ev \<and> progressOf ev = []"
  using assms
  by (auto simp: storeLookup_def split: if_splits select_outcome.splits)

text \<open>With the store configured, every resolution queries it once, and first.\<close>

lemma storeLookup_selects:
  assumes "isSupabaseConfigured h" and "storeLookup h dbId tr = (r, tr1)"
  shows "selectsOf tr1 = selectsOf tr @ [dbId]"
  using assms
  by (auto simp: storeLookup_def selectsOf_append split: if_splits select_outcome.splits)

lemma generateTerm_Inr:
  assumes "generateTerm h termId dbId tr = (Inr data, tr')"
  shows "\<exists>text parsed. generateContent h tr termId = GenerateResolves (Some text)
           \<and> text \<noteq> [] \<and> JSON_parse h text = Some parsed
           \<and> applyDefaults dbId parsed = Some data"
  using assms
  by (auto simp: generateTerm_def Let_def
        split: generate_outcome.splits option.splits if_splits)

lemma generateTerm_events:
  assumes "generateTerm h termId dbId tr = (r, tr')"
  shows "\<exists>ev. tr' = tr @ ev \<and> progressOf ev = []"
  using assms
  by (auto simp: generateTerm_def Let_def
        split: generate_outcome.splits option.splits if_splits)

lemma generateTerm_selects:
  assumes "generateTerm h termId dbId tr = (r, tr')"
  shows "selectsOf tr' = selectsOf tr"
  using assms
  by (auto simp: generateTerm_def Let_def selectsOf_append
        split: generate_outcome.splits option.splits if_splits)

lemma getTermData_selects:
  assumes "isSupabaseConfigured h" and "getTermData h termId tr = (r, tr')"
  shows "selectsOf tr' = selectsOf tr @ [normalizeId (unicodeLowerCase h) termId]"
proof -
  let ?dbId = "normalizeId (unicodeLowerCase h) termId"
  obtain s tr1 where s: "storeLookup h ?dbId tr = (s, tr1)"
    by (cases "storeLookup h ?dbId tr") auto
  with assms(1) have p1: "selectsOf tr1 = selectsOf tr @ [?dbId]"
    by (rule storeLookup_selects)
  show ?thesis
  proof (cases "tr' = tr1")
    case True
    with p1 show ?thesis by simp
  next
    case False
    with assms(2) s have "generateTerm h termId ?dbId tr1 = (r, tr')"
      by (auto simp: getTermData_def Let_def split: option.splits if_splits)
    then have "selectsOf tr' = selectsOf tr1"
      by (rule generateTerm_selects)
    with p1 show ?thesis by simp
  qed
qed

lemma getTermData_progress:
  assumes "getTermData h termId tr = (r, tr')"
  shows "progressOf tr' = progressOf tr"
proof -
  let ?dbId = "normalizeId (unicodeLowerCase h) termId"
  obtain s tr1 where s: "storeLookup h ?dbId tr = (s, tr1)"
    by (cases "storeLookup h ?dbId tr") auto
  then obtain ev where "tr1 = tr @ ev" "progressOf ev = []"
    using storeLookup_events by blast
  then have p1: "progressOf tr1 = progressOf tr"
    by (simp add: progressOf_append)
  show ?thesis
  proof (cases "tr' = tr1")
    case True
    with p1 show ?thesis by simp
  next
    case False
    with assms s have "generateTerm h termId ?dbId tr1 = (r, tr')"
      by (auto simp: getTermData_def Let_def split: option.splits if_splits)
    then obtain ev' where "tr' = tr1 @ ev'" "progressOf ev' = []"
      using generateTerm_events by blast
    with p1 show ?thesis by (simp add: progressOf_append)
  qed
qed

text \<open>
  Claim C2, as amended. When the store tier and the seed tier miss and the generation
  call is rejected, or the text of its response does not parse, the failure is caught and
  logged and \<open>getTermData\<close> raises its one error, \<open>Termo nao encontrado.\<close> (with a
  tilde on the a), after exactly one call to the backend and with nothing attempted
  after it. This is the error of every failing resolution; the resolver has no error
  of its own for a failed generation.
\<close>

theorem generation_failure_not_found:
  assumes "storeLookup h (normalizeId (unicodeLowerCase h) termId) tr = (None, tr1)"
    and "\<not> truthy (localDatabase (trim (toLowerCase (unicodeLowerCase h) termId)))"
    and "generateContent h tr1 termId = GenerateRejects
         \<or> (\<exists>text. generateContent h tr1 termId = GenerateResolves (Some text)
                \<and> text \<noteq> [] \<and> JSON_parse h text = None)"
  shows "getTermData h termId tr =
           (Inl notFound,
            tr1 @ [Generate termId, ConsoleError (ascii ''AI Generation failed:'')])"
  using assms by (auto simp: getTermData_def generateTerm_def)

theorem generation_failure_not_found_witness:
  "getTermData garbledHost (ascii ''Kubernetes'') [] =
     (Inl notFound,
      [Generate (ascii ''Kubernetes''), ConsoleError (ascii ''AI Generation failed:'')])"
proof -
  have 1: "storeLookup garbledHost
             (normalizeId (unicodeLowerCase garbledHost) (ascii ''Kubernetes'')) [] = (None, [])"
    by (simp add: storeLookup_def host_eval)
  have 2: "\<not> truthy (localDatabase
             (trim (toLowerCase (unicodeLowerCase garbledHost) (ascii ''Kubernetes''))))"
    by (simp add: localDatabase_def objectPrototypeNames_def host_eval string_eval)
  have 3: "generateContent garbledHost [] (ascii ''Kubernetes'') = GenerateRejects
         \<or> (\<exists>text. generateContent garbledHost [] (ascii ''Kubernetes'')
                      = GenerateResolves (Some text)
                \<and> text \<noteq> [] \<and> JSON_parse garbledHost text = None)"
    by (simp add: host_eval ascii_simps)
  from generation_failure_not_found [OF 1 2 3] show ?thesis by simp
qed

text \<open>
  The claim C2 as the specification states it fails. A rejected generation call, a
  response that does not parse, and a response without text, where nothing failed and no
  tier produced a record, all end in the same error value.
\<close>

theorem generation_failure_counterexample:
  "fst (getTermData offlineHost (ascii ''Kubernetes'') []) = Inl notFound
   \<and> fst (getTermData garbledHost (ascii ''Kubernetes'') []) = Inl notFound
   \<and> fst (getTermData silentHost (ascii ''Kubernetes'') []) = Inl notFound"
  by (simp add: resolver_eval host_eval string_eval)

text \<open>
  Claim C3. When the store is configured and its query for the normalized slug of the raw
  text delivers a row whose content is a record, \<open>getTermData\<close> returns that record as
  it is. The only events are the query and a console line: the backend is not called, and
  the result does not depend on the seed set, whatever the raw text.
\<close>

theorem store_hit_precedence:
  assumes "isSupabaseConfigured h"
    and "select_single h tr (normalizeId (unicodeLowerCase h) termId) = SelectResolves row"
    and "getProp row (ascii ''content'') = record"
    and "truthy record"
  shows "getTermData h termId tr =
           (Inr record,
            tr @ [Select (normalizeId (unicodeLowerCase h) termId),
                  ConsoleLog (ascii ''Hit from Supabase:'')])"
  using assms truthy_getProp [of row "ascii ''content''"]
  by (simp add: getTermData_def storeLookup_def)

theorem store_hit_precedence_witness:
  "getTermData cachedHost (ascii ''API'') [] =
     (Inr storedApi, [Select (ascii ''api''), ConsoleLog (ascii ''Hit from Supabase:'')])
   \<and> storedApi \<noteq> localDatabase (ascii ''api'')"
proof -
  let ?row = "JObj PlainObject
                [(ascii ''id'', JStr (ascii ''api'')), (ascii ''content'', storedApi)]"
  have n: "normalizeId (unicodeLowerCase cachedHost) (ascii ''API'') = ascii ''api''"
    by (simp add: host_eval string_eval)
  have 1: "isSupabaseConfigured cachedHost"
    by (simp add: host_eval ascii_simps)
  have 2: "select_single cachedHost []
             (normalizeId (unicodeLowerCase cachedHost) (ascii ''API'')) = SelectResolves ?row"
    unfolding n by (simp add: host_eval)
  have 3: "getProp ?row (ascii ''content'') = storedApi"
    by (simp add: ascii_simps)
  have 4: "truthy storedApi"
    by (simp add: storedApi_def)
  have 5: "storedApi \<noteq> localDatabase (ascii ''api'')"
    by (simp add: storedApi_def localDatabase_def api_record_def)
  from store_hit_precedence [OF 1 2 3 4] n 5 show ?thesis by simp
qed

text \<open>
  Claim C4. When the store is not configured and the seed set has an entry under the
  lower-cased, trimmed raw text, \<open>getTermData\<close> returns that entry and the history is
  unchanged: no call to the backend, and none to the store.
\<close>

theorem seed_hit_offline:
  assumes "\<not> isSupabaseConfigured h"
    and "localDatabase (trim (toLowerCase (unicodeLowerCase h) termId)) = record"
    and "truthy record"
  shows "getTermData h termId tr = (Inr record, tr)"
  using assms by (simp add: getTermData_def storeLookup_def)

theorem seed_hit_offline_witness:
  "getTermData offlineHost (ascii '' API '') [] = (Inr api_record, [])"
proof -
  have 1: "\<not> isSupabaseConfigured offlineHost"
    by (simp add: host_eval)
  have 2: "localDatabase (trim (toLowerCase (unicodeLowerCase offlineHost) (ascii '' API '')))
             = api_record"
    by (simp add: host_eval string_eval localDatabase_def)
  have 3: "truthy api_record"
    by (simp add: api_record_def)
  from seed_hit_offline [OF 1 2 3] show ?thesis .
qed

text \<open>
  Claim C5. Whenever \<open>getTermData\<close> succeeds after a call to the backend, the \<open>id\<close> of
  the record it returns is \<open>normalizeId\<close> of the raw input, whatever the payload held.
\<close>

theorem generated_id_forced:
  assumes "getTermData h termId tr = (Inr data, tr')"
    and "Generate termId \<in> set (drop (length tr) tr')"
  shows "getProp data (ascii ''id'') = JStr (normalizeId (unicodeLowerCase h) termId)"
proof -
  let ?dbId = "normalizeId (unicodeLowerCase h) termId"
  obtain r tr1 where s: "storeLookup h ?dbId tr = (r, tr1)"
    by (cases "storeLookup h ?dbId tr") auto
  then obtain ev where ev: "tr1 = tr @ ev" "Generate termId \<notin> set ev"
    using storeLookup_events by blast
  have "generateTerm h termId ?dbId tr1 = (Inr data, tr')"
    using assms s ev
    by (auto simp: getTermData_def Let_def split: option.splits if_splits)
  then obtain parsed where "applyDefaults ?dbId parsed = Some data"
    using generateTerm_Inr by blast
  then show ?thesis by (rule applyDefaults_id)
qed

theorem generated_id_forced_witness:
  "\<exists>data. getTermData generatingHost (ascii ''Docker'') [] =
            (Inr data, [Generate (ascii ''Docker'')])
          \<and> getProp (the (JSON_parse generatingHost dockerText)) (ascii ''id'')
              = JStr (ascii ''wrong'')
          \<and> getProp data (ascii ''id'') = JStr (ascii ''docker'')"
proof -
  have "\<exists>data. getTermData generatingHost (ascii ''Docker'') [] =
            (Inr data, [Generate (ascii ''Docker'')])"
    by (simp add: resolver_eval host_eval string_eval)
  then obtain data where d: "getTermData generatingHost (ascii ''Docker'') [] =
            (Inr data, [Generate (ascii ''Docker'')])" ..
  have g: "Generate (ascii ''Docker'') \<in> set (drop (length []) [Generate (ascii ''Docker'')])"
    by simp
  have n: "normalizeId (unicodeLowerCase generatingHost) (ascii ''Docker'') = ascii ''docker''"
    by (simp add: host_eval string_eval)
  have w: "getProp (the (JSON_parse generatingHost dockerText)) (ascii ''id'')
              = JStr (ascii ''wrong'')"
    by (simp add: host_eval ascii_simps)
  from generated_id_forced [OF d g] n w d show ?thesis by simp
qed

text \<open>
  Claim C6. When the generation tier is reached and the payload parses to an object,
  \<open>getTermData\<close> returns a record in which \<open>examples\<close>, \<open>analogies\<close> and
  \<open>relatedTerms\<close> are the empty array wherever the payload had no array there (absent
  or not a sequence), \<open>practicalUsage\<close> is the placeholder titled \<open>Contexto Geral\<close>
  when the payload had none, and \<open>fullTerm\<close> is the payload's \<open>term\<close> when the
  payload had none.
\<close>

theorem generated_defaults:
  assumes "storeLookup h (normalizeId (unicodeLowerCase h) termId) tr = (None, tr1)"
    and "\<not> truthy (localDatabase (trim (toLowerCase (unicodeLowerCase h) termId)))"
    and "generateContent h tr1 termId = GenerateResolves (Some text)"
    and "text \<noteq> []"
    and "JSON_parse h text = Some (JObj k props)"
  shows "\<exists>data tr'. getTermData h termId tr = (Inr data, tr')
    \<and> (\<not> isArray (getProp (JObj k props) (ascii ''examples''))
          \<longrightarrow> getProp data (ascii ''examples'') = emptyArray)
    \<and> (\<not> isArray (getProp (JObj k props) (ascii ''analogies''))
          \<longrightarrow> getProp data (ascii ''analogies'') = emptyArray)
    \<and> (\<not> isArray (getProp (JObj k props) (ascii ''relatedTerms''))
          \<longrightarrow> getProp data (ascii ''relatedTerms'') = emptyArray)
    \<and> (\<not> truthy (getProp (JObj k props) (ascii ''practicalUsage''))
          \<longrightarrow> getProp data (ascii ''practicalUsage'') = placeholderUsage)
    \<and> (\<not> truthy (getProp (JObj k props) (ascii ''fullTerm''))
          \<longrightarrow> getProp data (ascii ''fullTerm'') = getProp (JObj k props) (ascii ''term''))
    \<and> getProp placeholderUsage (ascii ''title'') = JStr (ascii ''Contexto Geral'')"
proof -
  let ?dbId = "normalizeId (unicodeLowerCase h) termId"
  obtain data where a: "applyDefaults ?dbId (JObj k props) = Some data"
    using applyDefaults_obj by blast
  have "\<exists>tr'. getTermData h termId tr = (Inr data, tr')"
    using assms a by (simp add: getTermData_def generateTerm_def Let_def)
  moreover have "getProp placeholderUsage (ascii ''title'') = JStr (ascii ''Contexto Geral'')"
    by (simp add: placeholderUsage_def)
  ultimately show ?thesis
    using applyDefaults_examples [OF a] applyDefaults_analogies [OF a]
      applyDefaults_relatedTerms [OF a] applyDefaults_practicalUsage [OF a]
      applyDefaults_fullTerm [OF a]
    by (auto simp: arrayOrEmpty_def)
qed

theorem generated_defaults_witness:
  "\<exists>data tr'. getTermData generatingHost (ascii ''Docker'') [] = (Inr data, tr')
     \<and> getProp data (ascii ''examples'') = emptyArray
     \<and> getProp data (ascii ''analogies'') = emptyArray
     \<and> getProp data (ascii ''relatedTerms'') = emptyArray
     \<and> getProp data (ascii ''practicalUsage'') = placeholderUsage
     \<and> getProp data (ascii ''fullTerm'') = JStr (ascii ''Docker'')"
proof -
  let ?props = "[(ascii ''id'', JStr (ascii ''wrong'')), (ascii ''term'', JStr (ascii ''Docker''))]"
  have 1: "storeLookup generatingHost
             (normalizeId (unicodeLowerCase generatingHost) (ascii ''Docker'')) [] = (None, [])"
    by (simp add: storeLookup_def host_eval)
  have 2: "\<not> truthy (localDatabase
             (trim (toLowerCase (unicodeLowerCase generatingHost) (ascii ''Docker''))))"
    by (simp add: localDatabase_def objectPrototypeNames_def host_eval string_eval)
  have 3: "generateContent generatingHost [] (ascii ''Docker'')
             = GenerateResolves (Some dockerText)"
    by (simp add: host_eval)
  have 4: "dockerText \<noteq> []"
    by (simp add: dockerText_def ascii_simps)
  have 5: "JSON_parse generatingHost dockerText = Some (JObj PlainObject ?props)"
    by (simp add: host_eval ascii_simps)
  have 6: "\<not> isArray (getProp (JObj PlainObject ?props) (ascii ''examples''))"
    "\<not> isArray (getProp (JObj PlainObject ?props) (ascii ''analogies''))"
    "\<not> isArray (getProp (JObj PlainObject ?props) (ascii ''relatedTerms''))"
    "\<not> truthy (getProp (JObj PlainObject ?props) (ascii ''practicalUsage''))"
    "\<not> truthy (getProp (JObj PlainObject ?props) (ascii ''fullTerm''))"
    "getProp (JObj PlainObject ?props) (ascii ''term'') = JStr (ascii ''Docker'')"
    by (simp_all add: ascii_simps)
  from generated_defaults [OF 1 2 3 4 5] 6 show ?thesis by auto
qed

section \<open>Properties of the batch seeder\<close>

lemma seedLoop_append: "seedLoop h (xs @ ys) tr = seedLoop h ys (seedLoop h xs tr)"
  by (induction xs arbitrary: tr) (auto split: prod.splits sum.splits)

lemma seedLoop_failed:
  assumes "trim t \<noteq> []"
    and "getTermData h t (tr @ [Progress (processingMessage t)]) = (Inl e, tr1)"
  shows "seedLoop h (t # ys) tr
           = seedLoop h ys (tr1 @ [Progress (failedMessage t), Sleep 1500])"
  using assms by simp

lemma walkReport_Cons:
  "walkReport (t # ts) (ok # oks) = itemReport t ok @ walkReport ts oks"
  by (simp add: walkReport_def)

text \<open>
  Whatever the resolver does, the loop reports every non-blank term of its list, in
  order: the announcement followed by one of the two outcomes.
\<close>

lemma seedLoop_progress:
  "\<exists>outcomes. length outcomes = length (nonBlank ys)
     \<and> progressOf (seedLoop h ys tr) = progressOf tr @ walkReport (nonBlank ys) outcomes"
proof (induction ys arbitrary: tr)
  case Nil
  show ?case by (simp add: nonBlank_def walkReport_def)
next
  case (Cons t ys)
  show ?case
  proof (cases "trim t = []")
    case True
    with Cons.IH [of tr] show ?thesis by (simp add: nonBlank_def)
  next
    case False
    obtain r tr1 where g: "getTermData h t (tr @ [Progress (processingMessage t)]) = (r, tr1)"
      by (cases "getTermData h t (tr @ [Progress (processingMessage t)])") auto
    then have p: "progressOf tr1 = progressOf tr @ [processingMessage t]"
      using getTermData_progress [OF g] by (simp add: progressOf_append)
    let ?ok = "case r of Inr d \<Rightarrow> True | Inl e \<Rightarrow> False"
    let ?tr2 = "tr1 @ [Progress (if ?ok then savedMessage t else failedMessage t), Sleep 1500]"
    have step: "seedLoop h (t # ys) tr = seedLoop h ys ?tr2"
      using False g by (cases r) simp_all
    obtain oks where oks: "length oks = length (nonBlank ys)"
      "progressOf (seedLoop h ys ?tr2) = progressOf ?tr2 @ walkReport (nonBlank ys) oks"
      using Cons.IH [of ?tr2] by blast
    have "progressOf ?tr2 = progressOf tr @ itemReport t ?ok"
      using p by (simp add: progressOf_append itemReport_def)
    with oks step False
    have "length (?ok # oks) = length (nonBlank (t # ys))
       \<and> progressOf (seedLoop h (t # ys) tr)
           = progressOf tr @ walkReport (nonBlank (t # ys)) (?ok # oks)"
      by (simp add: nonBlank_def walkReport_Cons)
    then show ?thesis by blast
  qed
qed

text \<open>With the store configured, the loop resolves every non-blank term of its list.\<close>

lemma seedLoop_selects:
  assumes "isSupabaseConfigured h"
  shows "selectsOf (seedLoop h ys tr)
           = selectsOf tr @ map (normalizeId (unicodeLowerCase h)) (nonBlank ys)"
proof (induction ys arbitrary: tr)
  case Nil
  show ?case by (simp add: nonBlank_def)
next
  case (Cons t ys)
  show ?case
  proof (cases "trim t = []")
    case True
    with Cons.IH [of tr] show ?thesis by (simp add: nonBlank_def)
  next
    case False
    obtain r tr1 where g: "getTermData h t (tr @ [Progress (processingMessage t)]) = (r, tr1)"
      by (cases "getTermData h t (tr @ [Progress (processingMessage t)])") auto
    have p: "selectsOf tr1 = selectsOf tr @ [normalizeId (unicodeLowerCase h) t]"
      using getTermData_selects [OF assms g] by (simp add: selectsOf_append)
    show ?thesis
      using False g p Cons.IH
      by (cases r) (simp_all add: nonBlank_def selectsOf_append)
  qed
qed

lemma nonBlank_defaultList: "nonBlank defaultList = defaultList"
  by (simp add: nonBlank_def defaultList_def trim_def is_whitespace_def ascii_simps)

text \<open>
  Claim C7. When the store is not configured, \<open>seedDatabase\<close> hands the callback one
  string, the error message, and does nothing else, for every callback history and every
  list: no call to the resolver, so no query and no generation, and no iteration.
\<close>

theorem seed_unconfigured:
  "\<not> isSupabaseConfigured h \<Longrightarrow>
   seedDatabase h customList tr = tr @ [Progress notConfiguredMessage]"
  by (simp add: seedDatabase_def)

theorem seed_unconfigured_witness:
  "\<not> isSupabaseConfigured offlineHost
   \<and> seedDatabase offlineHost (Some [ascii ''X'']) [] = [Progress notConfiguredMessage]"
proof -
  have 1: "\<not> isSupabaseConfigured offlineHost"
    by (simp add: host_eval)
  from seed_unconfigured [OF 1, of "Some [ascii ''X'']" "[]"] 1 show ?thesis by simp
qed

text \<open>
  Claim C8. Let the resolver fail on a non-blank term \<open>t\<close> of the list, with the terms
  \<open>xs\<close> before it and the terms \<open>ys\<close> after it. Then the callback receives, in this
  order: the two opening lines, the reports of all non-blank terms of \<open>xs\<close>, the
  announcement of \<open>t\<close> and its failure line, the reports (announcement and outcome) of
  all non-blank terms of \<open>ys\<close>, whatever their outcomes, and the closing line. The
  resolver is run for every non-blank term of the list, those after \<open>t\<close> included: the
  store is queried once for each, in order.
\<close>

theorem seed_failure_isolated:
  assumes "isSupabaseConfigured h"
    and "listToProcess customList = xs @ t # ys"
    and "trim t \<noteq> []"
    and "getTermData h t
           (seedLoop h xs
              (tr @ [Progress (startMessage (length (xs @ t # ys))),
                     Progress tokenWarningMessage])
            @ [Progress (processingMessage t)]) = (Inl e, tr1)"
  shows "\<exists>before after.
       length before = length (nonBlank xs) \<and> length after = length (nonBlank ys)
     \<and> selectsOf (seedDatabase h customList tr) =
         selectsOf tr @ map (normalizeId (unicodeLowerCase h)) (nonBlank (xs @ t # ys))
     \<and> progressOf (seedDatabase h customList tr) =
         progressOf tr
           @ [startMessage (length (xs @ t # ys)), tokenWarningMessage]
           @ walkReport (nonBlank xs) before
           @ [processingMessage t, failedMessage t]
           @ walkReport (nonBlank ys) after
           @ [finishedMessage]"
proof -
  let ?tr0 = "tr @ [Progress (startMessage (length (xs @ t # ys))),
                    Progress tokenWarningMessage]"
  let ?tr2 = "tr1 @ [Progress (failedMessage t), Sleep 1500]"
  have "seedLoop h (xs @ t # ys) ?tr0 = seedLoop h (t # ys) (seedLoop h xs ?tr0)"
    by (rule seedLoop_append)
  also have "\<dots> = seedLoop h ys ?tr2"
    using assms(3,4) by (rule seedLoop_failed)
  finally have w:
    "seedDatabase h customList tr = seedLoop h ys ?tr2 @ [Progress finishedMessage]"
    using assms(1,2) by (simp add: seedDatabase_def)
  obtain bs where bs: "length bs = length (nonBlank xs)"
    "progressOf (seedLoop h xs ?tr0) = progressOf ?tr0 @ walkReport (nonBlank xs) bs"
    using seedLoop_progress [of xs h ?tr0] by blast
  obtain as where as: "length as = length (nonBlank ys)"
    "progressOf (seedLoop h ys ?tr2) = progressOf ?tr2 @ walkReport (nonBlank ys) as"
    using seedLoop_progress [of ys h ?tr2] by blast
  have "progressOf tr1 = progressOf (seedLoop h xs ?tr0) @ [processingMessage t]"
    using getTermData_progress [OF assms(4)] by (simp add: progressOf_append)
  with w bs(2) as(2)
  have "progressOf (seedDatabase h customList tr) =
         progressOf tr
           @ [startMessage (length (xs @ t # ys)), tokenWarningMessage]
           @ walkReport (nonBlank xs) bs
           @ [processingMessage t, failedMessage t]
           @ walkReport (nonBlank ys) as
           @ [finishedMessage]"
    by (simp add: progressOf_append)
  moreover have "selectsOf (seedDatabase h customList tr) =
         selectsOf tr @ map (normalizeId (unicodeLowerCase h)) (nonBlank (xs @ t # ys))"
    using assms(1,2) by (simp add: seedDatabase_def seedLoop_selects selectsOf_append)
  ultimately show ?thesis using bs(1) as(1) by blast
qed

theorem seed_failure_isolated_witness:
  "\<exists>before after. length before = 1 \<and> length after = 1
     \<and> fst (getTermData seedingHost (ascii ''Docker'')
              (seedLoop seedingHost [ascii ''Kubernetes'']
                 [Progress (startMessage 3), Progress tokenWarningMessage]
               @ [Progress (processingMessage (ascii ''Docker''))])) = Inl notFound
     \<and> selectsOf (seedDatabase seedingHost
          (Some [ascii ''Kubernetes'', ascii ''Docker'', ascii ''CI/CD'']) []) =
        [ascii ''kubernetes'', ascii ''docker'', ascii ''ci-cd'']
     \<and> progressOf (seedDatabase seedingHost
          (Some [ascii ''Kubernetes'', ascii ''Docker'', ascii ''CI/CD'']) []) =
        [startMessage 3, tokenWarningMessage]
        @ walkReport [ascii ''Kubernetes''] before
        @ [processingMessage (ascii ''Docker''), failedMessage (ascii ''Docker'')]
        @ walkReport [ascii ''CI/CD''] after @ [finishedMessage]"
proof -
  let ?l = "[ascii ''Kubernetes'', ascii ''Docker'', ascii ''CI/CD'']"
  let ?tr0 = "[] @ [Progress (startMessage
                      (length ([ascii ''Kubernetes''] @ ascii ''Docker'' # [ascii ''CI/CD'']))),
                    Progress tokenWarningMessage]"
  let ?g = "getTermData seedingHost (ascii ''Docker'')
              (seedLoop seedingHost [ascii ''Kubernetes''] ?tr0
               @ [Progress (processingMessage (ascii ''Docker''))])"
  have 1: "isSupabaseConfigured seedingHost"
    by (simp add: host_eval ascii_simps)
  have 2: "listToProcess (Some ?l) = [ascii ''Kubernetes''] @ ascii ''Docker'' # [ascii ''CI/CD'']"
    by (simp add: listToProcess_def)
  have 3: "trim (ascii ''Docker'') \<noteq> []"
    by (simp add: string_eval)
  have k: "trim (ascii ''Kubernetes'') \<noteq> []"
    by (simp add: string_eval)
  have b: "nonBlank [ascii ''Kubernetes''] = [ascii ''Kubernetes'']"
    "nonBlank [ascii ''CI/CD''] = [ascii ''CI/CD'']"
    by (simp_all add: nonBlank_def string_eval)
  have f: "fst ?g = Inl notFound"
    using k by (simp add: resolver_eval host_eval string_eval)
  then have 4: "?g = (Inl notFound, snd ?g)"
    by (simp add: prod_eq_iff)
  have l: "length ([ascii ''Kubernetes''] @ ascii ''Docker'' # [ascii ''CI/CD'']) = 3"
    by simp
  have n: "map (normalizeId (unicodeLowerCase seedingHost))
             (nonBlank ([ascii ''Kubernetes''] @ ascii ''Docker'' # [ascii ''CI/CD'']))
           = [ascii ''kubernetes'', ascii ''docker'', ascii ''ci-cd'']"
    by (simp add: nonBlank_def host_eval string_eval)
  from seed_failure_isolated [OF 1 2 3 4] f b show ?thesis
    unfolding l n by simp
qed

text \<open>
  Claim C10. With the store configured, an empty custom list is treated as no list: the
  seeder behaves exactly as without the argument, announces 20 terms, resolves each of
  the 20 terms of the built-in list and reports each of them.
\<close>

theorem seed_empty_custom_list:
  assumes "isSupabaseConfigured h"
  shows "seedDatabase h (Some []) tr = seedDatabase h None tr
     \<and> length defaultList = 20
     \<and> selectsOf (seedDatabase h (Some []) tr) =
         selectsOf tr @ map (normalizeId (unicodeLowerCase h)) defaultList
     \<and> (\<exists>outcomes. length outcomes = 20
          \<and> progressOf (seedDatabase h (Some []) tr) =
              progressOf tr @ [startMessage 20, tokenWarningMessage]
                @ walkReport defaultList outcomes @ [finishedMessage])"
proof -
  have l: "length defaultList = 20"
    by (simp add: defaultList_def)
  let ?tr0 = "tr @ [Progress (startMessage 20), Progress tokenWarningMessage]"
  have s: "seedDatabase h (Some []) tr
             = seedLoop h defaultList ?tr0 @ [Progress finishedMessage]"
    using assms l by (simp add: seedDatabase_def listToProcess_def)
  obtain oks where oks: "length oks = length (nonBlank defaultList)"
    "progressOf (seedLoop h defaultList ?tr0)
       = progressOf ?tr0 @ walkReport (nonBlank defaultList) oks"
    using seedLoop_progress [of defaultList h ?tr0] by blast
  have "length oks = 20 \<and> progressOf (seedDatabase h (Some []) tr) =
              progressOf tr @ [startMessage 20, tokenWarningMessage]
                @ walkReport defaultList oks @ [finishedMessage]"
    using s oks l by (simp add: progressOf_append nonBlank_defaultList)
  then have "\<exists>outcomes. length outcomes = 20
          \<and> progressOf (seedDatabase h (Some []) tr) =
              progressOf tr @ [startMessage 20, tokenWarningMessage]
                @ walkReport defaultList outcomes @ [finishedMessage]"
    by blast
  moreover have "seedDatabase h (Some []) tr = seedDatabase h None tr"
    by (simp add: seedDatabase_def listToProcess_def)
  moreover have "selectsOf (seedDatabase h (Some []) tr) =
         selectsOf tr @ map (normalizeId (unicodeLowerCase h)) defaultList"
    using s assms by (simp add: seedLoop_selects selectsOf_append nonBlank_defaultList)
  ultimately show ?thesis using l by blast
qed

theorem seed_empty_custom_list_witness:
  "isSupabaseConfigured seedingHost
   \<and> seedDatabase seedingHost (Some []) [] = seedDatabase seedingHost None []
   \<and> (\<exists>outcomes. length outcomes = 20
          \<and> progressOf (seedDatabase seedingHost (Some []) []) =
              [startMessage 20, tokenWarningMessage]
                @ walkReport defaultList outcomes @ [finishedMessage])"
proof -
  have 1: "isSupabaseConfigured seedingHost"
    by (simp add: host_eval ascii_simps)
  note t = seed_empty_custom_list [OF 1, of "[]"]
  have 2: "seedDatabase seedingHost (Some []) [] = seedDatabase seedingHost None []"
    using t [THEN conjunct1] .
  have 3: "\<exists>outcomes. length outcomes = 20
          \<and> progressOf (seedDatabase seedingHost (Some []) []) =
              [startMessage 20, tokenWarningMessage]
                @ walkReport defaultList outcomes @ [finishedMessage]"
    using t [THEN conjunct2, THEN conjunct2, THEN conjunct2] by simp
  from 1 2 3 show ?thesis by blast
qed

end
